theory Spec2Isabelle
  imports Main
begin

section \<open>The encryption endpoint of encrypt.py\<close>

text \<open>
  The program is one Flask handler, \<^verbatim>\<open>encrypt\<close>, and four helpers. It reads the request
  parameter \<^verbatim>\<open>conf_path\<close>, cuts it into a bucket name and an object name, downloads the
  configuration object, parses it as JSON, resolves three secrets, downloads the source
  file, encrypts it with GnuPG and uploads the armored result.

  The storage service, the secret manager, the GnuPG engine and \<^verbatim>\<open>json.loads\<close> are not
  part of the program. They are parameters of the model (the record \<open>env\<close>); each one
  either raises or returns. Every call the program makes to one of the three services is
  appended to a trace, and a service may answer differently depending on the calls made
  before: each service function receives the trace so far.

  Strings are byte lists (UTF-8). Cutting at the ASCII character \<open>/\<close> and searching for a
  substring give the same result on bytes as on code points. Calls to \<^verbatim>\<open>logging\<close> are
  left out: they do not change what the handler returns or which services it calls.
\<close>

subsection \<open>Exceptions and Python values\<close>

text \<open>
  The exceptions the program can meet. \<open>ValueError\<close> carries its message (the program
  builds one itself), \<open>KeyError\<close> the missing key, \<open>BackendError\<close> the text of an
  exception raised inside a service client.
\<close>

datatype exn =
    AttributeError
  | IndexError
  | ValueError string
  | KeyError string
  | TypeError
  | BackendError string

text \<open>
  What \<^verbatim>\<open>json.loads\<close> can return: \<^verbatim>\<open>None\<close>, a \<^verbatim>\<open>str\<close>, a \<^verbatim>\<open>dict\<close> with string keys, or
  a value of another type (\<^verbatim>\<open>bool\<close>, \<^verbatim>\<open>int\<close>, \<^verbatim>\<open>float\<close>, \<^verbatim>\<open>list\<close>). The last kind is kept
  opaque as \<open>POther\<close>: how two of them add and how any value but a string and \<^verbatim>\<open>None\<close>
  prints are parameters of the model.
\<close>

datatype 'o pyval =
    PNone
  | PStr string
  | PDict "(string \<times> 'o pyval) list"
  | POther 'o

subsection \<open>String and list operations\<close>

text \<open>\<^verbatim>\<open>s.split(c)\<close> for a separator of one character: never the empty list.\<close>

fun split_on :: "char \<Rightarrow> string \<Rightarrow> string list" where
  "split_on c [] = [[]]"
| "split_on c (x # xs) =
     (let r = split_on c xs in if x = c then [] # r else (x # hd r) # tl r)"

definition startswith :: "string \<Rightarrow> string \<Rightarrow> bool" where
  "startswith s sep = (take (length sep) s = sep)"

text \<open>The leftmost occurrence of a non-empty separator: the text before it and after it.\<close>

fun split_first :: "string \<Rightarrow> string \<Rightarrow> (string \<times> string) option" where
  "split_first sep [] = None"
| "split_first sep (x # xs) =
     (if startswith (x # xs) sep then Some ([], drop (length sep) (x # xs))
      else (case split_first sep xs of
              None \<Rightarrow> None
            | Some (a, b) \<Rightarrow> Some (x # a, b)))"

text \<open>\<^verbatim>\<open>s.split(sep, 1)\<close>: at most one cut, \<^verbatim>\<open>ValueError\<close> on an empty separator.\<close>

definition split_max1 :: "string \<Rightarrow> string \<Rightarrow> exn + string list" where
  "split_max1 s sep =
     (if sep = [] then Inl (ValueError ''empty separator'')
      else (case split_first sep s of
              None \<Rightarrow> Inr [s]
            | Some (a, b) \<Rightarrow> Inr [a, b]))"

text \<open>\<^verbatim>\<open>xs[i]\<close> for an index that is not negative.\<close>

definition index :: "'a list \<Rightarrow> nat \<Rightarrow> exn + 'a" where
  "index xs i = (if i < length xs then Inr (xs ! i) else Inl IndexError)"

text \<open>\<^verbatim>\<open>s.lstrip(c)\<close> for one character: every leading \<open>c\<close> goes.\<close>

definition lstrip :: "string \<Rightarrow> char \<Rightarrow> string" where
  "lstrip s c = dropWhile (\<lambda>x. x = c) s"

subsection \<open>The services\<close>

text \<open>
  A call to a service, as the trace records it:
  \<^item> \<open>DownloadAsText b n\<close>: \<^verbatim>\<open>bucket(b).blob(n).download_as_text()\<close>;
  \<^item> \<open>AccessSecretVersion n\<close>: \<^verbatim>\<open>access_secret_version({"name": n})\<close>;
  \<^item> \<open>ImportKeys k\<close>: \<^verbatim>\<open>gpg.import_keys(k)\<close>;
  \<^item> \<open>GpgEncrypt d r\<close>: \<^verbatim>\<open>gpg.encrypt(d, recipients=[r], always_trust=True)\<close>;
  \<^item> \<open>UploadFromString b n p\<close>: \<^verbatim>\<open>bucket(b).blob(n).upload_from_string(p)\<close>.
\<close>

datatype 'o event =
    DownloadAsText string "'o pyval"
  | AccessSecretVersion string
  | ImportKeys string
  | GpgEncrypt string string
  | UploadFromString string "'o pyval" string

text \<open>
  The object \<^verbatim>\<open>gpg.encrypt\<close> returns: its flag \<^verbatim>\<open>ok\<close>, its \<^verbatim>\<open>stderr\<close>, and the text
  \<^verbatim>\<open>str()\<close> gives (the armored ciphertext).
\<close>

record crypt =
  ok :: bool
  stderr :: string
  armored :: string

text \<open>
  The object \<^verbatim>\<open>gpg.import_keys\<close> returns: \<open>count\<close> is the number of keys it imported,
  0 when the key material could not be imported. The call reports a failed import in this
  object; the program does not look at it.
\<close>

record import_result =
  count :: nat

text \<open>
  \<^item> \<open>bucket\<close>: \<^verbatim>\<open>storage_client.bucket(name)\<close>, which builds the handle locally (no call
    to the service) and may refuse the name;
  \<^item> \<open>download_as_text\<close>, \<open>upload_from_string\<close>: \<^verbatim>\<open>blob(name)\<close> on a handle, then the
    transfer;
  \<^item> \<open>access_secret_version\<close>: the client, the call and the decoding of the payload
    (lines 19 to 23), as one answer;
  \<^item> \<open>other_add\<close>: \<^verbatim>\<open>a + b\<close> on two values that are neither \<^verbatim>\<open>None\<close>, \<^verbatim>\<open>str\<close> nor \<^verbatim>\<open>dict\<close>;
  \<^item> \<open>py_repr\<close>: the text of a value in an f-string, asked only for a \<^verbatim>\<open>dict\<close> or a
    \<open>POther\<close>.
\<close>

record 'o env =
  bucket :: "string \<Rightarrow> exn + unit"
  download_as_text :: "'o event list \<Rightarrow> string \<Rightarrow> 'o pyval \<Rightarrow> exn + string"
  upload_from_string :: "'o event list \<Rightarrow> string \<Rightarrow> 'o pyval \<Rightarrow> string \<Rightarrow> exn + unit"
  access_secret_version :: "'o event list \<Rightarrow> string \<Rightarrow> exn + string"
  import_keys :: "'o event list \<Rightarrow> string \<Rightarrow> exn + import_result"
  gpg_encrypt :: "'o event list \<Rightarrow> string \<Rightarrow> string \<Rightarrow> exn + crypt"
  json_loads :: "string \<Rightarrow> exn + 'o pyval"
  other_add :: "'o \<Rightarrow> 'o \<Rightarrow> exn + 'o"
  py_repr :: "'o pyval \<Rightarrow> string"

subsection \<open>Operations on Python values\<close>

text \<open>
  \<^verbatim>\<open>a + b\<close>. Two strings concatenate. \<^verbatim>\<open>None\<close> and a \<^verbatim>\<open>dict\<close> add to nothing, and a string
  adds to nothing but a string: \<^verbatim>\<open>TypeError\<close>.
\<close>

fun py_add :: "'o env \<Rightarrow> 'o pyval \<Rightarrow> 'o pyval \<Rightarrow> exn + 'o pyval" where
  "py_add env (PStr a) (PStr b) = Inr (PStr (a @ b))"
| "py_add env (POther a) (POther b) =
     (case other_add env a b of Inl e \<Rightarrow> Inl e | Inr c \<Rightarrow> Inr (POther c))"
| "py_add env a b = Inl TypeError"

text \<open>\<^verbatim>\<open>v[key]\<close> for a string key: only a \<^verbatim>\<open>dict\<close> can be indexed by a string.\<close>

fun py_getitem :: "'o pyval \<Rightarrow> string \<Rightarrow> exn + 'o pyval" where
  "py_getitem (PDict kvs) key =
     (case map_of kvs key of None \<Rightarrow> Inl (KeyError key) | Some v \<Rightarrow> Inr v)"
| "py_getitem v key = Inl TypeError"

text \<open>A value inside an f-string.\<close>

fun py_format :: "'o env \<Rightarrow> 'o pyval \<Rightarrow> string" where
  "py_format env (PStr s) = s"
| "py_format env PNone = ''None''"
| "py_format env v = py_repr env v"

subsection \<open>The helpers\<close>

text \<open>
  Each helper takes the trace so far and returns its result, or the exception it lets
  through, with the trace extended by the calls it made. The helpers catch every
  exception only to log it and raise it again.
\<close>

definition fetch_secret ::
  "'o env \<Rightarrow> 'o pyval \<Rightarrow> 'o event list \<Rightarrow> (exn + string) \<times> 'o event list" where
  "fetch_secret env secret_id t =
     (let secret_name = py_format env secret_id @ ''/versions/latest''
      in (access_secret_version env t secret_name, t @ [AccessSecretVersion secret_name]))"

definition fetch_conf_details ::
  "'o env \<Rightarrow> string \<Rightarrow> string \<Rightarrow> 'o event list \<Rightarrow> (exn + string) \<times> 'o event list" where
  "fetch_conf_details env bucket_name conf_file_name t =
     (case bucket env bucket_name of
        Inl e \<Rightarrow> (Inl e, t)
      | Inr _ \<Rightarrow>
          (download_as_text env t bucket_name (PStr conf_file_name),
           t @ [DownloadAsText bucket_name (PStr conf_file_name)]))"

text \<open>Lines 49 to 56 of \<^verbatim>\<open>read_and_encrypt_data\<close>: the read.\<close>

definition read_data ::
  "'o env \<Rightarrow> string \<Rightarrow> 'o pyval \<Rightarrow> 'o pyval \<Rightarrow> 'o event list \<Rightarrow>
     (exn + string) \<times> 'o event list" where
  "read_data env bucket_name file_path file_name t =
     (case bucket env bucket_name of
        Inl e \<Rightarrow> (Inl e, t)
      | Inr _ \<Rightarrow>
          (case py_add env file_path file_name of
             Inl e \<Rightarrow> (Inl e, t)
           | Inr name \<Rightarrow>
               (download_as_text env t bucket_name name,
                t @ [DownloadAsText bucket_name name])))"

text \<open>Lines 58 to 67: the import of the key and the encryption.\<close>

definition encrypt_data ::
  "'o env \<Rightarrow> string \<Rightarrow> string \<Rightarrow> string \<Rightarrow> 'o event list \<Rightarrow>
     (exn + crypt) \<times> 'o event list" where
  "encrypt_data env data_to_encrypt gpg_public_key recipient_name t =
     (let t1 = t @ [ImportKeys gpg_public_key] in
      case import_keys env t gpg_public_key of
        Inl e \<Rightarrow> (Inl e, t1)
      | Inr _ \<Rightarrow>
          (let t2 = t1 @ [GpgEncrypt data_to_encrypt recipient_name] in
           case gpg_encrypt env t1 data_to_encrypt recipient_name of
             Inl e \<Rightarrow> (Inl e, t2)
           | Inr encrypted_data \<Rightarrow>
               if \<not> ok encrypted_data
               then (Inl (ValueError (''Encryption failed: '' @ stderr encrypted_data)), t2)
               else (Inr encrypted_data, t2)))"

definition read_and_encrypt_data ::
  "'o env \<Rightarrow> string \<Rightarrow> 'o pyval \<Rightarrow> 'o pyval \<Rightarrow> string \<Rightarrow> string \<Rightarrow> 'o event list \<Rightarrow>
     (exn + crypt) \<times> 'o event list" where
  "read_and_encrypt_data env bucket_name file_path file_name gpg_public_key recipient_name t =
     (case read_data env bucket_name file_path file_name t of
        (Inl e, t1) \<Rightarrow> (Inl e, t1)
      | (Inr data_to_encrypt, t1) \<Rightarrow>
          encrypt_data env data_to_encrypt gpg_public_key recipient_name t1)"

definition upload_encrypted_data ::
  "'o env \<Rightarrow> string \<Rightarrow> crypt \<Rightarrow> 'o pyval \<Rightarrow> 'o pyval \<Rightarrow> 'o event list \<Rightarrow>
     (exn + unit) \<times> 'o event list" where
  "upload_encrypted_data env bucket_name encrypted_data encrypted_file_path file_name t =
     (case bucket env bucket_name of
        Inl e \<Rightarrow> (Inl e, t)
      | Inr _ \<Rightarrow>
          (case py_add env encrypted_file_path file_name of
             Inl e \<Rightarrow> (Inl e, t)
           | Inr p \<Rightarrow>
               (case py_add env p (PStr ''.asc'') of
                  Inl e \<Rightarrow> (Inl e, t)
                | Inr name \<Rightarrow>
                    (upload_from_string env t bucket_name name (armored encrypted_data),
                     t @ [UploadFromString bucket_name name (armored encrypted_data)]))))"

subsection \<open>The handler\<close>

text \<open>
  The body of a response: \<open>Message m\<close> is the JSON object \<^verbatim>\<open>{"message": m}\<close>, and
  \<open>Error p e\<close> is \<^verbatim>\<open>{"error": p + str(e)}\<close> for the exception \<open>e\<close>. A response returned
  without a status has Flask's default, 200.
\<close>

datatype body = Message string | Error string exn

record response =
  body :: body
  status :: nat

text \<open>
  Lines 88 to 91: the bucket name and the object name of the configuration, from the
  request parameter (\<open>None\<close> when the request has no \<^verbatim>\<open>conf_path\<close>).
\<close>

definition parse_conf_path :: "string option \<Rightarrow> exn + string \<times> string" where
  "parse_conf_path arg =
     (case arg of
        None \<Rightarrow> Inl AttributeError
      | Some conf_path \<Rightarrow>
          (case index (split_on CHR ''/'' conf_path) 2 of
             Inl e \<Rightarrow> Inl e
           | Inr bucket_name \<Rightarrow>
               (case split_max1 conf_path bucket_name of
                  Inl e \<Rightarrow> Inl e
                | Inr parts \<Rightarrow>
                    (case index parts 1 of
                       Inl e \<Rightarrow> Inl e
                     | Inr rest \<Rightarrow> Inr (bucket_name, lstrip rest CHR ''/'')))))"

text \<open>The local variables that lines 97 to 104 set.\<close>

record 'o settings =
  gpg_public_key :: string
  gcs_bucket :: string
  recipient_name :: string
  file_name :: "'o pyval"
  file_path :: "'o pyval"
  encrypted_file_path :: "'o pyval"

text \<open>Lines 97 to 104: the configuration, its three secrets and its three plain fields.\<close>

definition fetch_conf_and_secrets ::
  "'o env \<Rightarrow> string \<Rightarrow> string \<Rightarrow> 'o event list \<Rightarrow>
     (exn + 'o settings) \<times> 'o event list" where
  "fetch_conf_and_secrets env bucket_name conf_file_name t =
     (case fetch_conf_details env bucket_name conf_file_name t of
        (Inl e, t1) \<Rightarrow> (Inl e, t1)
      | (Inr conf_details, t1) \<Rightarrow>
     (case json_loads env conf_details of
        Inl e \<Rightarrow> (Inl e, t1)
      | Inr conf \<Rightarrow>
     (case py_getitem conf ''gpg_public_key'' of
        Inl e \<Rightarrow> (Inl e, t1)
      | Inr id1 \<Rightarrow>
     (case fetch_secret env id1 t1 of
        (Inl e, t2) \<Rightarrow> (Inl e, t2)
      | (Inr key, t2) \<Rightarrow>
     (case py_getitem conf ''gcs_bucket'' of
        Inl e \<Rightarrow> (Inl e, t2)
      | Inr id2 \<Rightarrow>
     (case fetch_secret env id2 t2 of
        (Inl e, t3) \<Rightarrow> (Inl e, t3)
      | (Inr bkt, t3) \<Rightarrow>
     (case py_getitem conf ''recipient_name'' of
        Inl e \<Rightarrow> (Inl e, t3)
      | Inr id3 \<Rightarrow>
     (case fetch_secret env id3 t3 of
        (Inl e, t4) \<Rightarrow> (Inl e, t4)
      | (Inr rcp, t4) \<Rightarrow>
     (case py_getitem conf ''file_name'' of
        Inl e \<Rightarrow> (Inl e, t4)
      | Inr fname \<Rightarrow>
     (case py_getitem conf ''file_path'' of
        Inl e \<Rightarrow> (Inl e, t4)
      | Inr fpath \<Rightarrow>
     (case py_getitem conf ''encrypted_file_path'' of
        Inl e \<Rightarrow> (Inl e, t4)
      | Inr epath \<Rightarrow>
          (Inr \<lparr>gpg_public_key = key, gcs_bucket = bkt, recipient_name = rcp,
                file_name = fname, file_path = fpath, encrypted_file_path = epath\<rparr>,
           t4))))))))))))"

text \<open>The handler: the response and the trace of the calls it made.\<close>

definition encrypt :: "'o env \<Rightarrow> string option \<Rightarrow> response \<times> 'o event list" where
  "encrypt env arg =
     (case parse_conf_path arg of
        Inl e \<Rightarrow> (\<lparr>body = Error ''Invalid configuration path: '' e, status = 400\<rparr>, [])
      | Inr (bucket_name, conf_file_name) \<Rightarrow>
     (case fetch_conf_and_secrets env bucket_name conf_file_name [] of
        (Inl e, t1) \<Rightarrow>
          (\<lparr>body = Error ''Failed to fetch configuration or secrets: '' e, status = 500\<rparr>, t1)
      | (Inr s, t1) \<Rightarrow>
     (case read_and_encrypt_data env (gcs_bucket s) (file_path s) (file_name s)
             (gpg_public_key s) (recipient_name s) t1 of
        (Inl e, t2) \<Rightarrow> (\<lparr>body = Error ''Encryption failed: '' e, status = 500\<rparr>, t2)
      | (Inr encrypted_data, t2) \<Rightarrow>
     (case upload_encrypted_data env (gcs_bucket s) encrypted_data
             (encrypted_file_path s) (file_name s) t2 of
        (Inl e, t3) \<Rightarrow>
          (\<lparr>body = Error ''Failed to store encrypted file: '' e, status = 500\<rparr>, t3)
      | (Inr _, t3) \<Rightarrow>
          (\<lparr>body = Message ''Success, file was encrypted and stored in GCS.'',
            status = 200\<rparr>, t3)))))"

section \<open>Observations on a trace\<close>

text \<open>The kinds of call the properties speak about.\<close>

fun is_upload :: "'o event \<Rightarrow> bool" where
  "is_upload (UploadFromString b n p) = True"
| "is_upload ev = False"

fun is_secret :: "'o event \<Rightarrow> bool" where
  "is_secret (AccessSecretVersion n) = True"
| "is_secret ev = False"

fun is_storage :: "'o event \<Rightarrow> bool" where
  "is_storage (DownloadAsText b n) = True"
| "is_storage (UploadFromString b n p) = True"
| "is_storage ev = False"

text \<open>
  Whether a call did what was asked, given the calls made before it: the service returned
  without raising and, for the encryption, the result has its flag \<^verbatim>\<open>ok\<close> set.
\<close>

fun succeeded :: "'o env \<Rightarrow> 'o event list \<Rightarrow> 'o event \<Rightarrow> bool" where
  "succeeded env pre (DownloadAsText b n) = (\<not> isl (download_as_text env pre b n))"
| "succeeded env pre (AccessSecretVersion n) = (\<not> isl (access_secret_version env pre n))"
| "succeeded env pre (ImportKeys k) = (\<not> isl (import_keys env pre k))"
| "succeeded env pre (GpgEncrypt d r) =
     (case gpg_encrypt env pre d r of Inl e \<Rightarrow> False | Inr c \<Rightarrow> ok c)"
| "succeeded env pre (UploadFromString b n p) = (\<not> isl (upload_from_string env pre b n p))"

text \<open>Every call of a trace succeeded, each one after the calls before it.\<close>

fun all_succeeded :: "'o env \<Rightarrow> 'o event list \<Rightarrow> 'o event list \<Rightarrow> bool" where
  "all_succeeded env pre [] = True"
| "all_succeeded env pre (ev # rest) =
     (succeeded env pre ev \<and> all_succeeded env (pre @ [ev]) rest)"

text \<open>
  The uploads of a trace that returned normally. The store writes an object whole: an
  upload that raises leaves no object, and no other call of the program creates one. So
  these are the objects a run has persisted.
\<close>

fun persisted :: "'o env \<Rightarrow> 'o event list \<Rightarrow> 'o event list \<Rightarrow> 'o event list" where
  "persisted env pre [] = []"
| "persisted env pre (ev # rest) =
     (if is_upload ev \<and> succeeded env pre ev then [ev] else []) @ persisted env (pre @ [ev]) rest"

text \<open>The six fields the handler reads from the configuration.\<close>

definition required_fields :: "string list" where
  "required_fields =
     [''gpg_public_key'', ''gcs_bucket'', ''recipient_name'',
      ''file_name'', ''file_path'', ''encrypted_file_path'']"

section \<open>Concrete environments\<close>

text \<open>
  A store with the configuration object \<^verbatim>\<open>app/conf.json\<close> in the bucket \<^verbatim>\<open>cfgbucket\<close> and
  possibly the source file \<^verbatim>\<open>in/report.csv\<close> in the bucket \<^verbatim>\<open>data-bucket\<close>, a secret manager
  with three secrets, and a GnuPG engine. The text of the configuration object stands as
  \<open>CONF\<close>; the parameters are the value \<^verbatim>\<open>json.loads\<close> gives for it, the answer to the
  read of the source file, and the answers of \<^verbatim>\<open>import_keys\<close> and \<^verbatim>\<open>encrypt\<close>.
\<close>

definition test_env ::
  "unit pyval \<Rightarrow> exn + string \<Rightarrow> exn + import_result \<Rightarrow> exn + crypt \<Rightarrow> unit env" where
  "test_env conf src imported encrypted =
     \<lparr>bucket = (\<lambda>b. Inr ()),
      download_as_text = (\<lambda>t b n.
        if b = ''cfgbucket'' \<and> n = PStr ''app/conf.json'' then Inr ''CONF''
        else if b = ''data-bucket'' \<and> n = PStr ''in/report.csv'' then src
        else Inl (BackendError ''404 No such object'')),
      upload_from_string = (\<lambda>t b n p. Inr ()),
      access_secret_version = (\<lambda>t n.
        if n = ''secrets/key/versions/latest'' then Inr ''PUBLIC KEY''
        else if n = ''secrets/bucket/versions/latest'' then Inr ''data-bucket''
        else if n = ''secrets/recipient/versions/latest'' then Inr ''alice''
        else Inl (BackendError ''404 Secret not found'')),
      import_keys = (\<lambda>t k. imported),
      gpg_encrypt = (\<lambda>t d r. encrypted),
      json_loads = (\<lambda>text. if text = ''CONF'' then Inr conf else Inl (ValueError ''Expecting value'')),
      other_add = (\<lambda>a b. Inl TypeError),
      py_repr = (\<lambda>v. ''{}'')\<rparr>"

text \<open>A complete configuration, one with a null field, and one with a field missing.\<close>

definition conf_ok :: "unit pyval" where
  "conf_ok = PDict
     [(''gpg_public_key'', PStr ''secrets/key''),
      (''gcs_bucket'', PStr ''secrets/bucket''),
      (''recipient_name'', PStr ''secrets/recipient''),
      (''file_name'', PStr ''report.csv''),
      (''file_path'', PStr ''in/''),
      (''encrypted_file_path'', PStr ''out/'')]"

definition conf_null :: "unit pyval" where
  "conf_null = PDict
     [(''gpg_public_key'', PStr ''secrets/key''),
      (''gcs_bucket'', PStr ''secrets/bucket''),
      (''recipient_name'', PStr ''secrets/recipient''),
      (''file_name'', PStr ''report.csv''),
      (''file_path'', PStr ''in/''),
      (''encrypted_file_path'', PNone)]"

definition conf_short :: "unit pyval" where
  "conf_short = PDict
     [(''gpg_public_key'', PStr ''secrets/key''),
      (''gcs_bucket'', PStr ''secrets/bucket''),
      (''recipient_name'', PStr ''secrets/recipient''),
      (''file_name'', PStr ''report.csv''),
      (''file_path'', PStr ''in/'')]"

text \<open>A result of the engine with the flag set, and one that reports a failure.\<close>

definition good_crypt :: crypt where
  "good_crypt = \<lparr>ok = True, stderr = [], armored = ''PGP MESSAGE''\<rparr>"

definition bad_crypt :: crypt where
  "bad_crypt = \<lparr>ok = False, stderr = ''gpg: alice: skipped: No public key'', armored = []\<rparr>"

text \<open>
  \<^item> \<open>scenario_env\<close>: everything is in place;
  \<^item> \<open>absent_env\<close>: the source file is not in the bucket;
  \<^item> \<open>nokey_env\<close>: the key material is not imported and the engine has no key for the
    recipient;
  \<^item> \<open>stale_env\<close>: the key material is not imported, but the keyring already holds a key
    for the recipient and the engine encrypts;
  \<^item> \<open>null_env\<close>: \<^verbatim>\<open>encrypted_file_path\<close> is null in the configuration;
  \<^item> \<open>short_env\<close>: \<^verbatim>\<open>encrypted_file_path\<close> is missing from the configuration.
\<close>

definition scenario_env :: "unit env" where
  "scenario_env = test_env conf_ok (Inr ''a,b,c'') (Inr \<lparr>count = 1\<rparr>) (Inr good_crypt)"

definition absent_env :: "unit env" where
  "absent_env = test_env conf_ok (Inl (BackendError ''404 No such object''))
     (Inr \<lparr>count = 1\<rparr>) (Inr good_crypt)"

definition nokey_env :: "unit env" where
  "nokey_env = test_env conf_ok (Inr ''a,b,c'') (Inr \<lparr>count = 0\<rparr>) (Inr bad_crypt)"

definition stale_env :: "unit env" where
  "stale_env = test_env conf_ok (Inr ''a,b,c'') (Inr \<lparr>count = 0\<rparr>) (Inr good_crypt)"

definition null_env :: "unit env" where
  "null_env = test_env conf_null (Inr ''a,b,c'') (Inr \<lparr>count = 1\<rparr>) (Inr good_crypt)"

definition short_env :: "unit env" where
  "short_env = test_env conf_short (Inr ''a,b,c'') (Inr \<lparr>count = 1\<rparr>) (Inr good_crypt)"

text \<open>The request of the scenario, and what its first two stages give.\<close>

definition scenario_path :: "string option" where
  "scenario_path = Some ''gs://cfgbucket/app/conf.json''"

definition scenario_settings :: "unit settings" where
  "scenario_settings =
     \<lparr>gpg_public_key = ''PUBLIC KEY'', gcs_bucket = ''data-bucket'',
      recipient_name = ''alice'', file_name = PStr ''report.csv'',
      file_path = PStr ''in/'', encrypted_file_path = PStr ''out/''\<rparr>"

definition conf_trace :: "unit event list" where
  "conf_trace =
     [DownloadAsText ''cfgbucket'' (PStr ''app/conf.json''),
      AccessSecretVersion ''secrets/key/versions/latest'',
      AccessSecretVersion ''secrets/bucket/versions/latest'',
      AccessSecretVersion ''secrets/recipient/versions/latest'']"

section \<open>Lemmas\<close>

subsection \<open>Python values\<close>

lemma py_getitem_InrD:
  "py_getitem conf k = Inr v \<Longrightarrow> \<exists>kvs. conf = PDict kvs \<and> map_of kvs k = Some v"
  by (cases conf) (auto split: option.splits)

lemma py_add_str_rightD:
  "py_add env a (PStr y) = Inr v \<Longrightarrow> \<exists>x. a = PStr x \<and> v = PStr (x @ y)"
  by (cases a) auto

lemma py_add_to_strD:
  "py_add env a b = Inr (PStr z) \<Longrightarrow> \<exists>x y. a = PStr x \<and> b = PStr y \<and> z = x @ y"
  by (cases a; cases b) (auto split: sum.splits)

subsection \<open>Cutting a path\<close>

lemma split_on_no_sep: "c \<notin> set s \<Longrightarrow> split_on c s = [s]"
  by (induction s) (auto simp: Let_def)

lemma split_on_append:
  "c \<notin> set a \<Longrightarrow> split_on c (a @ c # b) = a # split_on c b"
  by (induction a) (auto simp: Let_def)

lemma split_first_leftmost:
  assumes "sep \<noteq> []"
    and "\<forall>i < length pre. \<not> startswith (drop i (pre @ sep @ rest)) sep"
  shows "split_first sep (pre @ sep @ rest) = Some (pre, rest)"
  using assms
proof (induction pre)
  case Nil
  then show ?case by (cases sep) (auto simp: startswith_def)
next
  case (Cons x pre)
  from Cons.prems(2) have "\<not> startswith (drop 0 ((x # pre) @ sep @ rest)) sep"
    by blast
  moreover from Cons.prems(2) have "\<forall>i < length pre. \<not> startswith (drop i (pre @ sep @ rest)) sep"
    by fastforce
  ultimately show ?case using Cons.IH Cons.prems(1) by simp
qed

text \<open>
  A path \<^verbatim>\<open>scheme://container/key\<close> is cut as expected when the container name does not
  occur in the path before its own segment.
\<close>

lemma parse_conf_path_well_formed:
  assumes "CHR ''/'' \<notin> set scheme" and "CHR ''/'' \<notin> set container" and "container \<noteq> []"
    and "\<forall>i < length (scheme @ ''://'').
           \<not> startswith (drop i ((scheme @ ''://'') @ container @ CHR ''/'' # key)) container"
  shows "parse_conf_path (Some (scheme @ ''://'' @ container @ CHR ''/'' # key)) =
           Inr (container, lstrip key CHR ''/'')"
proof -
  have "split_on CHR ''/'' (scheme @ ''://'' @ container @ CHR ''/'' # key) =
          (scheme @ '':'') # [] # container # split_on CHR ''/'' key"
    using assms(1,2)
      split_on_append [of "CHR ''/''" "scheme @ '':''" "''/'' @ container @ CHR ''/'' # key"]
      split_on_append [of "CHR ''/''" "[]" "container @ CHR ''/'' # key"]
      split_on_append [of "CHR ''/''" container key]
    by simp
  moreover have "split_first container ((scheme @ ''://'') @ container @ CHR ''/'' # key) =
          Some (scheme @ ''://'', CHR ''/'' # key)"
    using assms(3,4) by (rule split_first_leftmost)
  ultimately show ?thesis
    using assms(3)
    by (simp add: parse_conf_path_def index_def split_max1_def lstrip_def)
qed

subsection \<open>Traces\<close>

lemma all_succeeded_append:
  "all_succeeded env pre (xs @ ys) =
     (all_succeeded env pre xs \<and> all_succeeded env (pre @ xs) ys)"
  by (induction xs arbitrary: pre) auto

lemma persisted_append:
  "persisted env pre (xs @ ys) = persisted env pre xs @ persisted env (pre @ xs) ys"
  by (induction xs arbitrary: pre) auto

lemma persisted_no_upload:
  "filter is_upload xs = [] \<Longrightarrow> persisted env pre xs = []"
  by (induction xs arbitrary: pre) (auto split: if_splits)

lemma filter_butlast_empty:
  "filter P xs = [] \<Longrightarrow> filter P (butlast xs) = []"
  by (auto simp: filter_empty_conv dest: in_set_butlastD)

lemma filter_butlast_once:
  "filter P (butlast xs) = [] \<Longrightarrow> length (filter P xs) \<le> 1"
  by (cases xs rule: rev_cases) auto

subsection \<open>A stage that returns\<close>

lemma fetch_conf_and_secrets_InrD:
  assumes "fetch_conf_and_secrets env cb ck t = (Inr s, t')"
  shows "\<exists>text kvs id1 id2 id3.
           bucket env cb = Inr () \<and>
           download_as_text env t cb (PStr ck) = Inr text \<and>
           json_loads env text = Inr (PDict kvs) \<and>
           map_of kvs ''gpg_public_key'' = Some id1 \<and>
           map_of kvs ''gcs_bucket'' = Some id2 \<and>
           map_of kvs ''recipient_name'' = Some id3 \<and>
           map_of kvs ''file_name'' = Some (file_name s) \<and>
           map_of kvs ''file_path'' = Some (file_path s) \<and>
           map_of kvs ''encrypted_file_path'' = Some (encrypted_file_path s) \<and>
           access_secret_version env (t @ [DownloadAsText cb (PStr ck)])
             (py_format env id1 @ ''/versions/latest'') = Inr (gpg_public_key s) \<and>
           access_secret_version env
             (t @ [DownloadAsText cb (PStr ck),
                   AccessSecretVersion (py_format env id1 @ ''/versions/latest'')])
             (py_format env id2 @ ''/versions/latest'') = Inr (gcs_bucket s) \<and>
           access_secret_version env
             (t @ [DownloadAsText cb (PStr ck),
                   AccessSecretVersion (py_format env id1 @ ''/versions/latest''),
                   AccessSecretVersion (py_format env id2 @ ''/versions/latest'')])
             (py_format env id3 @ ''/versions/latest'') = Inr (recipient_name s) \<and>
           t' = t @ [DownloadAsText cb (PStr ck),
                     AccessSecretVersion (py_format env id1 @ ''/versions/latest''),
                     AccessSecretVersion (py_format env id2 @ ''/versions/latest''),
                     AccessSecretVersion (py_format env id3 @ ''/versions/latest'')]"
  using assms
  unfolding fetch_conf_and_secrets_def fetch_conf_details_def fetch_secret_def Let_def
  by (auto split: sum.splits prod.splits dest!: py_getitem_InrD)

lemma read_data_InrD:
  assumes "read_data env b fp fn t = (Inr d, t')"
  shows "\<exists>name. bucket env b = Inr () \<and> py_add env fp fn = Inr name \<and>
           download_as_text env t b name = Inr d \<and> t' = t @ [DownloadAsText b name]"
  using assms unfolding read_data_def
  by (auto split: sum.splits)

lemma encrypt_data_InrD:
  assumes "encrypt_data env d k r t = (Inr c, t')"
  shows "\<exists>ir. import_keys env t k = Inr ir \<and>
           gpg_encrypt env (t @ [ImportKeys k]) d r = Inr c \<and> ok c \<and>
           t' = t @ [ImportKeys k, GpgEncrypt d r]"
  using assms unfolding encrypt_data_def Let_def
  by (auto split: sum.splits if_splits)

lemma upload_encrypted_data_InrD:
  assumes "upload_encrypted_data env b c efp fn t = (Inr u, t')"
  shows "\<exists>x y. efp = PStr x \<and> fn = PStr y \<and> bucket env b = Inr () \<and>
           upload_from_string env t b (PStr (x @ y @ ''.asc'')) (armored c) = Inr () \<and>
           t' = t @ [UploadFromString b (PStr (x @ y @ ''.asc'')) (armored c)]"
  using assms unfolding upload_encrypted_data_def
  by (auto split: sum.splits dest!: py_add_str_rightD py_add_to_strD)

lemma conf_shape:
  assumes "fetch_conf_and_secrets env cb ck [] = (Inr s, t1)"
  shows "\<exists>n1 n2 n3.
           t1 = [DownloadAsText cb (PStr ck), AccessSecretVersion n1,
                 AccessSecretVersion n2, AccessSecretVersion n3] \<and>
           all_succeeded env [] t1"
  using fetch_conf_and_secrets_InrD [OF assms] by auto

lemma read_shape:
  assumes "read_data env b fp fn t = (Inr d, t')"
  shows "\<exists>name. t' = t @ [DownloadAsText b name] \<and> succeeded env t (DownloadAsText b name)"
  using read_data_InrD [OF assms] by auto

lemma encrypt_shape:
  assumes "encrypt_data env d k r t = (Inr c, t')"
  shows "t' = t @ [ImportKeys k, GpgEncrypt d r] \<and> succeeded env t (ImportKeys k) \<and>
         succeeded env (t @ [ImportKeys k]) (GpgEncrypt d r)"
  using encrypt_data_InrD [OF assms] by auto

lemma upload_shape:
  assumes "upload_encrypted_data env b c efp fn t = (Inr u, t')"
  shows "\<exists>n. t' = t @ [UploadFromString b n (armored c)] \<and>
           succeeded env t (UploadFromString b n (armored c))"
  using upload_encrypted_data_InrD [OF assms] by auto

subsection \<open>A stage that raises\<close>

lemma fetch_conf_and_secrets_InlD:
  assumes "fetch_conf_and_secrets env cb ck t = (Inl e, t')"
  shows "\<exists>new. t' = t @ new \<and> filter is_upload new = [] \<and>
           length (filter is_secret new) \<le> 3 \<and>
           all_succeeded env t (butlast new)"
  using assms
  unfolding fetch_conf_and_secrets_def fetch_conf_details_def fetch_secret_def Let_def
  by (auto split: sum.splits prod.splits)

lemma read_data_InlD:
  assumes "read_data env b fp fn t = (Inl e, t')"
  shows "t' = t \<or> (\<exists>name. download_as_text env t b name = Inl e \<and>
                       t' = t @ [DownloadAsText b name])"
  using assms unfolding read_data_def
  by (auto split: sum.splits)

lemma encrypt_data_InlD:
  assumes "encrypt_data env d k r t = (Inl e, t')"
  shows "(import_keys env t k = Inl e \<and> t' = t @ [ImportKeys k]) \<or>
         (\<exists>ir. import_keys env t k = Inr ir \<and> \<not> succeeded env (t @ [ImportKeys k]) (GpgEncrypt d r) \<and>
               t' = t @ [ImportKeys k, GpgEncrypt d r])"
  using assms unfolding encrypt_data_def Let_def
  by (auto split: sum.splits if_splits)

lemma upload_encrypted_data_InlD:
  assumes "upload_encrypted_data env b c efp fn t = (Inl e, t')"
  shows "t' = t \<or> (\<exists>n. upload_from_string env t b n (armored c) = Inl e \<and>
                    t' = t @ [UploadFromString b n (armored c)])"
  using assms unfolding upload_encrypted_data_def
  by (auto split: sum.splits)

subsection \<open>The runs of the handler\<close>

text \<open>A run ends at the first stage that raises, or after the upload.\<close>

lemma encrypt_cases:
  obtains
    (parse) e where
      "parse_conf_path arg = Inl e"
      "encrypt env arg = (\<lparr>body = Error ''Invalid configuration path: '' e, status = 400\<rparr>, [])"
  | (conf) cb ck e t1 where
      "parse_conf_path arg = Inr (cb, ck)"
      "fetch_conf_and_secrets env cb ck [] = (Inl e, t1)"
      "encrypt env arg =
         (\<lparr>body = Error ''Failed to fetch configuration or secrets: '' e, status = 500\<rparr>, t1)"
  | (read) cb ck s t1 e t2 where
      "parse_conf_path arg = Inr (cb, ck)"
      "fetch_conf_and_secrets env cb ck [] = (Inr s, t1)"
      "read_data env (gcs_bucket s) (file_path s) (file_name s) t1 = (Inl e, t2)"
      "encrypt env arg = (\<lparr>body = Error ''Encryption failed: '' e, status = 500\<rparr>, t2)"
  | (enc) cb ck s t1 d t2 e t3 where
      "parse_conf_path arg = Inr (cb, ck)"
      "fetch_conf_and_secrets env cb ck [] = (Inr s, t1)"
      "read_data env (gcs_bucket s) (file_path s) (file_name s) t1 = (Inr d, t2)"
      "encrypt_data env d (gpg_public_key s) (recipient_name s) t2 = (Inl e, t3)"
      "encrypt env arg = (\<lparr>body = Error ''Encryption failed: '' e, status = 500\<rparr>, t3)"
  | (upload) cb ck s t1 d t2 c t3 e t4 where
      "parse_conf_path arg = Inr (cb, ck)"
      "fetch_conf_and_secrets env cb ck [] = (Inr s, t1)"
      "read_data env (gcs_bucket s) (file_path s) (file_name s) t1 = (Inr d, t2)"
      "encrypt_data env d (gpg_public_key s) (recipient_name s) t2 = (Inr c, t3)"
      "upload_encrypted_data env (gcs_bucket s) c (encrypted_file_path s) (file_name s) t3
         = (Inl e, t4)"
      "encrypt env arg =
         (\<lparr>body = Error ''Failed to store encrypted file: '' e, status = 500\<rparr>, t4)"
  | (success) cb ck s t1 d t2 c t3 t4 where
      "parse_conf_path arg = Inr (cb, ck)"
      "fetch_conf_and_secrets env cb ck [] = (Inr s, t1)"
      "read_data env (gcs_bucket s) (file_path s) (file_name s) t1 = (Inr d, t2)"
      "encrypt_data env d (gpg_public_key s) (recipient_name s) t2 = (Inr c, t3)"
      "upload_encrypted_data env (gcs_bucket s) c (encrypted_file_path s) (file_name s) t3
         = (Inr (), t4)"
      "encrypt env arg =
         (\<lparr>body = Message ''Success, file was encrypted and stored in GCS.'',
           status = 200\<rparr>, t4)"
proof (cases "parse_conf_path arg")
  case (Inl e)
  then show ?thesis using parse by (simp add: encrypt_def)
next
  case (Inr p)
  obtain cb ck where p: "p = (cb, ck)" by (cases p)
  obtain r1 t1 where c1: "fetch_conf_and_secrets env cb ck [] = (r1, t1)"
    by (cases "fetch_conf_and_secrets env cb ck []")
  show ?thesis
  proof (cases r1)
    case (Inl e)
    then show ?thesis using conf Inr p c1 by (simp add: encrypt_def)
  next
    case s: (Inr s)
    obtain r2 t2 where c2:
      "read_data env (gcs_bucket s) (file_path s) (file_name s) t1 = (r2, t2)"
      by (cases "read_data env (gcs_bucket s) (file_path s) (file_name s) t1")
    show ?thesis
    proof (cases r2)
      case (Inl e)
      then show ?thesis using read Inr p c1 s c2
        by (simp add: encrypt_def read_and_encrypt_data_def)
    next
      case d: (Inr d)
      obtain r3 t3 where c3:
        "encrypt_data env d (gpg_public_key s) (recipient_name s) t2 = (r3, t3)"
        by (cases "encrypt_data env d (gpg_public_key s) (recipient_name s) t2")
      show ?thesis
      proof (cases r3)
        case (Inl e)
        then show ?thesis using enc Inr p c1 s c2 d c3
          by (simp add: encrypt_def read_and_encrypt_data_def)
      next
        case c: (Inr c)
        obtain r4 t4 where c4:
          "upload_encrypted_data env (gcs_bucket s) c (encrypted_file_path s) (file_name s) t3
             = (r4, t4)"
          by (cases "upload_encrypted_data env (gcs_bucket s) c (encrypted_file_path s)
                (file_name s) t3")
        show ?thesis
        proof (cases r4)
          case (Inl e)
          then show ?thesis using upload Inr p c1 s c2 d c3 c c4
            by (simp add: encrypt_def read_and_encrypt_data_def)
        next
          case u: (Inr u)
          then show ?thesis using success Inr p c1 s c2 d c3 c c4
            by (simp add: encrypt_def read_and_encrypt_data_def)
        qed
      qed
    qed
  qed
qed

lemma encrypt_status_200D:
  assumes "status (fst (encrypt env arg)) = 200"
  shows "\<exists>cb ck s t1 d t2 c t3 t4.
           parse_conf_path arg = Inr (cb, ck) \<and>
           fetch_conf_and_secrets env cb ck [] = (Inr s, t1) \<and>
           read_data env (gcs_bucket s) (file_path s) (file_name s) t1 = (Inr d, t2) \<and>
           encrypt_data env d (gpg_public_key s) (recipient_name s) t2 = (Inr c, t3) \<and>
           upload_encrypted_data env (gcs_bucket s) c (encrypted_file_path s) (file_name s) t3
             = (Inr (), t4) \<and>
           encrypt env arg =
             (\<lparr>body = Message ''Success, file was encrypted and stored in GCS.'',
               status = 200\<rparr>, t4)"
  using assms unfolding encrypt_def read_and_encrypt_data_def
  by (auto split: sum.splits prod.splits)

text \<open>What every run has in common.\<close>

lemma encrypt_trace_facts:
  "filter is_upload (butlast (snd (encrypt env arg))) = [] \<and>
   all_succeeded env [] (butlast (snd (encrypt env arg))) \<and>
   length (filter is_secret (snd (encrypt env arg))) \<le> 3"
proof (cases rule: encrypt_cases [of arg env])
  case (parse e)
  then show ?thesis by simp
next
  case (conf cb ck e t1)
  from fetch_conf_and_secrets_InlD [OF conf(2)] show ?thesis
    by (auto simp: conf(3) intro: filter_butlast_empty)
next
  case (read cb ck s t1 e t2)
  from conf_shape [OF read(2)] read_data_InlD [OF read(3)] show ?thesis
    by (auto simp: read(4) all_succeeded_append)
next
  case (enc cb ck s t1 d t2 e t3)
  from conf_shape [OF enc(2)] read_shape [OF enc(3)] encrypt_data_InlD [OF enc(4)]
  show ?thesis
    by (auto simp: enc(5) all_succeeded_append)
next
  case (upload cb ck s t1 d t2 c t3 e t4)
  from conf_shape [OF upload(2)] read_shape [OF upload(3)] encrypt_shape [OF upload(4)]
    upload_encrypted_data_InlD [OF upload(5)]
  show ?thesis
    by (auto simp: upload(6) all_succeeded_append)
next
  case (success cb ck s t1 d t2 c t3 t4)
  from conf_shape [OF success(2)] read_shape [OF success(3)] encrypt_shape [OF success(4)]
    upload_shape [OF success(5)]
  show ?thesis
    by (auto simp: success(6) all_succeeded_append)
qed

subsection \<open>The concrete environments, evaluated\<close>

lemma parse_scenario_path:
  "parse_conf_path scenario_path = Inr (''cfgbucket'', ''app/conf.json'')"
  by (simp add: scenario_path_def parse_conf_path_def index_def split_max1_def startswith_def
      lstrip_def)

lemma test_env_conf:
  "bucket (test_env conf src imp cr) ''cfgbucket'' = Inr () \<and>
   download_as_text (test_env conf src imp cr) [] ''cfgbucket'' (PStr ''app/conf.json'') =
     Inr ''CONF'' \<and>
   json_loads (test_env conf src imp cr) ''CONF'' = Inr conf"
  by (simp add: test_env_def)

lemma fetch_conf_test_env:
  "fetch_conf_and_secrets (test_env conf_ok src imp cr) ''cfgbucket'' ''app/conf.json'' [] =
     (Inr scenario_settings, conf_trace)"
  by (simp add: fetch_conf_and_secrets_def fetch_conf_details_def fetch_secret_def
      test_env_def conf_ok_def conf_trace_def scenario_settings_def)

lemma fetch_conf_null_env:
  "fetch_conf_and_secrets (test_env conf_null src imp cr) ''cfgbucket'' ''app/conf.json'' [] =
     (Inr \<lparr>gpg_public_key = ''PUBLIC KEY'', gcs_bucket = ''data-bucket'',
           recipient_name = ''alice'', file_name = PStr ''report.csv'',
           file_path = PStr ''in/'', encrypted_file_path = PNone\<rparr>, conf_trace)"
  by (simp add: fetch_conf_and_secrets_def fetch_conf_details_def fetch_secret_def
      test_env_def conf_null_def conf_trace_def)

lemma read_data_test_env:
  "read_data (test_env conf src imp cr) ''data-bucket'' (PStr ''in/'') (PStr ''report.csv'')
     conf_trace =
     (src, conf_trace @ [DownloadAsText ''data-bucket'' (PStr ''in/report.csv'')])"
  by (simp add: read_data_def test_env_def)

lemma encrypt_data_test_env:
  "encrypt_data (test_env conf src (Inr ir) (Inr c)) d k r t =
     (if ok c then Inr c else Inl (ValueError (''Encryption failed: '' @ stderr c)),
      t @ [ImportKeys k, GpgEncrypt d r])"
  by (simp add: encrypt_data_def test_env_def)

lemma upload_test_env:
  "upload_encrypted_data (test_env conf src imp cr) b c (PStr x) (PStr y) t =
     (Inr (), t @ [UploadFromString b (PStr (x @ y @ ''.asc'')) (armored c)])"
  by (simp add: upload_encrypted_data_def test_env_def)

lemma encrypt_scenario:
  "encrypt scenario_env scenario_path =
     (\<lparr>body = Message ''Success, file was encrypted and stored in GCS.'', status = 200\<rparr>,
      [DownloadAsText ''cfgbucket'' (PStr ''app/conf.json''),
       AccessSecretVersion ''secrets/key/versions/latest'',
       AccessSecretVersion ''secrets/bucket/versions/latest'',
       AccessSecretVersion ''secrets/recipient/versions/latest'',
       DownloadAsText ''data-bucket'' (PStr ''in/report.csv''),
       ImportKeys ''PUBLIC KEY'',
       GpgEncrypt ''a,b,c'' ''alice'',
       UploadFromString ''data-bucket'' (PStr ''out/report.csv.asc'') ''PGP MESSAGE''])"
  by (simp add: encrypt_def parse_scenario_path fetch_conf_and_secrets_def
      fetch_conf_details_def fetch_secret_def read_and_encrypt_data_def read_data_def
      encrypt_data_def upload_encrypted_data_def scenario_env_def test_env_def conf_ok_def good_crypt_def)

lemma encrypt_absent_env:
  "encrypt absent_env scenario_path =
     (\<lparr>body = Error ''Encryption failed: '' (BackendError ''404 No such object''),
       status = 500\<rparr>,
      conf_trace @ [DownloadAsText ''data-bucket'' (PStr ''in/report.csv'')])"
  by (simp add: encrypt_def parse_scenario_path absent_env_def fetch_conf_test_env scenario_settings_def
      read_and_encrypt_data_def read_data_test_env)

lemma encrypt_nokey_env:
  "encrypt nokey_env scenario_path =
     (\<lparr>body = Error ''Encryption failed: ''
         (ValueError ''Encryption failed: gpg: alice: skipped: No public key''),
       status = 500\<rparr>,
      conf_trace @ [DownloadAsText ''data-bucket'' (PStr ''in/report.csv''),
        ImportKeys ''PUBLIC KEY'', GpgEncrypt ''a,b,c'' ''alice''])"
  by (simp add: encrypt_def parse_scenario_path nokey_env_def fetch_conf_test_env scenario_settings_def
      read_and_encrypt_data_def read_data_test_env encrypt_data_test_env bad_crypt_def)

lemma encrypt_stale_env:
  "encrypt stale_env scenario_path =
     (\<lparr>body = Message ''Success, file was encrypted and stored in GCS.'', status = 200\<rparr>,
      conf_trace @ [DownloadAsText ''data-bucket'' (PStr ''in/report.csv''),
        ImportKeys ''PUBLIC KEY'', GpgEncrypt ''a,b,c'' ''alice'',
        UploadFromString ''data-bucket'' (PStr ''out/report.csv.asc'') ''PGP MESSAGE''])"
  by (simp add: encrypt_def parse_scenario_path stale_env_def fetch_conf_test_env scenario_settings_def
      read_and_encrypt_data_def read_data_test_env encrypt_data_test_env upload_test_env
      good_crypt_def)

lemma encrypt_null_env:
  "encrypt null_env scenario_path =
     (\<lparr>body = Error ''Failed to store encrypted file: '' TypeError, status = 500\<rparr>,
      conf_trace @ [DownloadAsText ''data-bucket'' (PStr ''in/report.csv''),
        ImportKeys ''PUBLIC KEY'', GpgEncrypt ''a,b,c'' ''alice''])"
  by (simp add: encrypt_def parse_scenario_path null_env_def fetch_conf_null_env
      read_and_encrypt_data_def read_data_test_env encrypt_data_test_env good_crypt_def
      upload_encrypted_data_def)
    (simp add: test_env_def)

section \<open>Properties\<close>

subsection \<open>Parsing the configuration path\<close>

text \<open>
  C1. The claim: for every input of the shape \<^verbatim>\<open>scheme://container/a/b/c\<close> the container is
  the third segment and the key is the text after the container name, \<^verbatim>\<open>a/b/c\<close>. The
  program takes the text after the leftmost occurrence of the container name in the whole
  path, not after its segment. For \<^verbatim>\<open>gcs://gcs/conf.json\<close> the name \<^verbatim>\<open>gcs\<close> occurs first in
  the scheme, and the key the program computes is \<^verbatim>\<open>://gcs/conf.json\<close>, not \<^verbatim>\<open>conf.json\<close>.
  (\<open>parse_conf_path_well_formed\<close> above is the claim for the paths where the container
  name does not occur earlier.)
\<close>

theorem parse_conf_path_first_occurrence:
  "parse_conf_path (Some ''gcs://gcs/conf.json'') = Inr (''gcs'', ''://gcs/conf.json'')"
  by (simp add: parse_conf_path_def index_def split_max1_def startswith_def lstrip_def)

text \<open>
  C9. A \<^verbatim>\<open>conf_path\<close> with only two segments between slashes is answered with status 400
  and the body \<^verbatim>\<open>{"error": "Invalid configuration path: ..."}\<close> carrying the \<^verbatim>\<open>IndexError\<close>;
  the trace is empty: no storage read, no storage write and no secret resolution is
  attempted.
\<close>

theorem encrypt_two_segments:
  assumes "length (split_on CHR ''/'' conf_path) = 2"
  shows "encrypt env (Some conf_path) =
           (\<lparr>body = Error ''Invalid configuration path: '' IndexError, status = 400\<rparr>, [])"
  using assms by (simp add: encrypt_def parse_conf_path_def index_def)

theorem encrypt_two_segments_witness:
  "length (split_on CHR ''/'' ''cfgbucket/conf.json'') = 2 \<and>
   encrypt scenario_env (Some ''cfgbucket/conf.json'') =
     (\<lparr>body = Error ''Invalid configuration path: '' IndexError, status = 400\<rparr>, [])"
  using encrypt_two_segments [of "''cfgbucket/conf.json''" scenario_env]
  by simp

text \<open>
  C10. A request with no \<^verbatim>\<open>conf_path\<close> parameter is answered with status 400 and the
  body \<^verbatim>\<open>{"error": "Invalid configuration path: ..."}\<close> carrying the \<^verbatim>\<open>AttributeError\<close> of
  calling \<^verbatim>\<open>split\<close> on \<^verbatim>\<open>None\<close>; the handler does not crash and calls no service.
\<close>

theorem encrypt_conf_path_absent:
  "encrypt env None =
     (\<lparr>body = Error ''Invalid configuration path: '' AttributeError, status = 400\<rparr>, [])"
  by (simp add: encrypt_def parse_conf_path_def)

subsection \<open>The response\<close>


subsection \<open>The destination\<close>

text \<open>
  C2. In every run that ends with status 200, the configuration is a \<^verbatim>\<open>dict\<close> whose
  \<^verbatim>\<open>file_path\<close>, \<^verbatim>\<open>file_name\<close> and \<^verbatim>\<open>encrypted_file_path\<close> are strings; the storage calls
  of the run are the read of the configuration, the read of
  \<^verbatim>\<open>file_path + file_name\<close> and the upload to
  \<^verbatim>\<open>encrypted_file_path + file_name + ".asc"\<close>; and both the read of the source and the
  upload go to the bucket whose name is the value the secret manager returned for the
  configuration's \<^verbatim>\<open>gcs_bucket\<close>.
\<close>

theorem encrypt_destination:
  assumes "status (fst (encrypt env arg)) = 200"
  shows "\<exists>cb ck text kvs id1 id2 b fp fn efp payload.
           parse_conf_path arg = Inr (cb, ck) \<and>
           download_as_text env [] cb (PStr ck) = Inr text \<and>
           json_loads env text = Inr (PDict kvs) \<and>
           map_of kvs ''gpg_public_key'' = Some id1 \<and>
           map_of kvs ''gcs_bucket'' = Some id2 \<and>
           map_of kvs ''file_path'' = Some (PStr fp) \<and>
           map_of kvs ''file_name'' = Some (PStr fn) \<and>
           map_of kvs ''encrypted_file_path'' = Some (PStr efp) \<and>
           access_secret_version env
             [DownloadAsText cb (PStr ck),
              AccessSecretVersion (py_format env id1 @ ''/versions/latest'')]
             (py_format env id2 @ ''/versions/latest'') = Inr b \<and>
           filter is_storage (snd (encrypt env arg)) =
             [DownloadAsText cb (PStr ck),
              DownloadAsText b (PStr (fp @ fn)),
              UploadFromString b (PStr (efp @ fn @ ''.asc'')) payload]"
proof -
  from encrypt_status_200D [OF assms] obtain cb ck s t1 d t2 c t3 t4 where
    parse: "parse_conf_path arg = Inr (cb, ck)" and
    conf: "fetch_conf_and_secrets env cb ck [] = (Inr s, t1)" and
    rd: "read_data env (gcs_bucket s) (file_path s) (file_name s) t1 = (Inr d, t2)" and
    enc: "encrypt_data env d (gpg_public_key s) (recipient_name s) t2 = (Inr c, t3)" and
    up: "upload_encrypted_data env (gcs_bucket s) c (encrypted_file_path s) (file_name s) t3
           = (Inr (), t4)" and
    res: "snd (encrypt env arg) = t4"
    by fastforce
  from upload_encrypted_data_InrD [OF up] obtain efp fn where
    efp: "encrypted_file_path s = PStr efp" and fn: "file_name s = PStr fn" and
    t4: "t4 = t3 @ [UploadFromString (gcs_bucket s) (PStr (efp @ fn @ ''.asc'')) (armored c)]"
    by blast
  from read_data_InrD [OF rd] obtain name where
    name: "py_add env (file_path s) (file_name s) = Inr name" and
    t2: "t2 = t1 @ [DownloadAsText (gcs_bucket s) name]"
    by blast
  from name fn obtain fp where fp: "file_path s = PStr fp" and name_eq: "name = PStr (fp @ fn)"
    by (auto dest: py_add_str_rightD)
  from encrypt_data_InrD [OF enc] have t3: "t3 = t2 @ [ImportKeys (gpg_public_key s), GpgEncrypt d (recipient_name s)]"
    by blast
  from fetch_conf_and_secrets_InrD [OF conf] obtain doc kvs id1 id2 id3 where
    dl: "download_as_text env [] cb (PStr ck) = Inr doc" and
    js: "json_loads env doc = Inr (PDict kvs)" and
    k1: "map_of kvs ''gpg_public_key'' = Some id1" and
    k2: "map_of kvs ''gcs_bucket'' = Some id2" and
    k4: "map_of kvs ''file_name'' = Some (file_name s)" and
    k5: "map_of kvs ''file_path'' = Some (file_path s)" and
    k6: "map_of kvs ''encrypted_file_path'' = Some (encrypted_file_path s)" and
    sec: "access_secret_version env
            [DownloadAsText cb (PStr ck),
             AccessSecretVersion (py_format env id1 @ ''/versions/latest'')]
            (py_format env id2 @ ''/versions/latest'') = Inr (gcs_bucket s)" and
    t1: "t1 = [DownloadAsText cb (PStr ck),
               AccessSecretVersion (py_format env id1 @ ''/versions/latest''),
               AccessSecretVersion (py_format env id2 @ ''/versions/latest''),
               AccessSecretVersion (py_format env id3 @ ''/versions/latest'')]"
    by auto
  have "filter is_storage (snd (encrypt env arg)) =
          [DownloadAsText cb (PStr ck),
           DownloadAsText (gcs_bucket s) (PStr (fp @ fn)),
           UploadFromString (gcs_bucket s) (PStr (efp @ fn @ ''.asc'')) (armored c)]"
    by (simp add: res t4 t3 t2 t1 name_eq)
  with parse dl js k1 k2 k4 k5 k6 sec efp fn fp show ?thesis
    by auto
qed

theorem encrypt_destination_witness:
  "status (fst (encrypt scenario_env scenario_path)) = 200 \<and>
   filter is_storage (snd (encrypt scenario_env scenario_path)) =
     [DownloadAsText ''cfgbucket'' (PStr ''app/conf.json''),
      DownloadAsText ''data-bucket'' (PStr (''in/'' @ ''report.csv'')),
      UploadFromString ''data-bucket'' (PStr (''out/'' @ ''report.csv'' @ ''.asc''))
        ''PGP MESSAGE'']"
  using encrypt_destination [of scenario_env scenario_path]
  by (simp add: encrypt_scenario)

text \<open>
  C4. In every invocation the upload is attempted at most once, and no call follows it.
  Every call before the last one of a run succeeded. When an upload is attempted, the
  path was parsed and the calls before the upload are exactly the read of the
  configuration, three secret resolutions, the read of the source, the import of the key
  and the encryption, in this order. When all of these have succeeded and the destination
  name can be built (the bucket handle is made, \<^verbatim>\<open>encrypted_file_path\<close> and \<^verbatim>\<open>file_name\<close>
  are strings), the upload is attempted exactly once. A run that ends with status 200 has
  persisted exactly its one upload; a run that ends with any other status has persisted
  nothing.
\<close>

theorem encrypt_write_once:
  "length (filter is_upload (snd (encrypt env arg))) \<le> 1 \<and>
   filter is_upload (butlast (snd (encrypt env arg))) = [] \<and>
   all_succeeded env [] (butlast (snd (encrypt env arg))) \<and>
   (\<forall>ev \<in> set (snd (encrypt env arg)). is_upload ev \<longrightarrow>
      (\<exists>cb ck n1 n2 n3 b src k d r.
         parse_conf_path arg = Inr (cb, ck) \<and>
         snd (encrypt env arg) =
           [DownloadAsText cb (PStr ck), AccessSecretVersion n1, AccessSecretVersion n2,
            AccessSecretVersion n3, DownloadAsText b src, ImportKeys k, GpgEncrypt d r, ev])) \<and>
   (\<forall>cb ck s t1 d t2 c t3 x y.
      parse_conf_path arg = Inr (cb, ck) \<and>
      fetch_conf_and_secrets env cb ck [] = (Inr s, t1) \<and>
      read_data env (gcs_bucket s) (file_path s) (file_name s) t1 = (Inr d, t2) \<and>
      encrypt_data env d (gpg_public_key s) (recipient_name s) t2 = (Inr c, t3) \<and>
      bucket env (gcs_bucket s) = Inr () \<and>
      encrypted_file_path s = PStr x \<and> file_name s = PStr y \<longrightarrow>
      filter is_upload (snd (encrypt env arg)) =
        [UploadFromString (gcs_bucket s) (PStr (x @ y @ ''.asc'')) (armored c)]) \<and>
   (if status (fst (encrypt env arg)) = 200
    then persisted env [] (snd (encrypt env arg)) = filter is_upload (snd (encrypt env arg)) \<and>
         length (filter is_upload (snd (encrypt env arg))) = 1
    else persisted env [] (snd (encrypt env arg)) = [])"
proof -
  have attempted: "filter is_upload (snd (encrypt env arg)) =
        [UploadFromString (gcs_bucket s) (PStr (x @ y @ ''.asc'')) (armored c)]"
    if parse: "parse_conf_path arg = Inr (cb, ck)"
      and conf: "fetch_conf_and_secrets env cb ck [] = (Inr s, t1)"
      and rd: "read_data env (gcs_bucket s) (file_path s) (file_name s) t1 = (Inr d, t2)"
      and enc: "encrypt_data env d (gpg_public_key s) (recipient_name s) t2 = (Inr c, t3)"
      and bk: "bucket env (gcs_bucket s) = Inr ()"
      and names: "encrypted_file_path s = PStr x" "file_name s = PStr y"
    for cb ck s t1 d t2 c t3 x y
  proof -
    have "snd (upload_encrypted_data env (gcs_bucket s) c (encrypted_file_path s)
                (file_name s) t3) =
            t3 @ [UploadFromString (gcs_bucket s) (PStr (x @ y @ ''.asc'')) (armored c)]"
      by (simp add: upload_encrypted_data_def bk names)
    with parse conf rd enc have "snd (encrypt env arg) =
            t3 @ [UploadFromString (gcs_bucket s) (PStr (x @ y @ ''.asc'')) (armored c)]"
      by (auto simp: encrypt_def read_and_encrypt_data_def split: sum.splits prod.splits)
    moreover from conf_shape [OF conf] read_shape [OF rd] encrypt_shape [OF enc]
    have "filter is_upload t3 = []"
      by auto
    ultimately show ?thesis
      by simp
  qed
  have shape: "\<forall>ev \<in> set (snd (encrypt env arg)). is_upload ev \<longrightarrow>
      (\<exists>cb ck n1 n2 n3 b src k d r.
         parse_conf_path arg = Inr (cb, ck) \<and>
         snd (encrypt env arg) =
           [DownloadAsText cb (PStr ck), AccessSecretVersion n1, AccessSecretVersion n2,
            AccessSecretVersion n3, DownloadAsText b src, ImportKeys k, GpgEncrypt d r, ev])"
  proof (cases rule: encrypt_cases [of arg env])
    case (parse e)
    then show ?thesis by simp
  next
    case (conf cb ck e t1)
    from fetch_conf_and_secrets_InlD [OF conf(2)] show ?thesis
      by (auto simp: conf(3) filter_empty_conv)
  next
    case (read cb ck s t1 e t2)
    from conf_shape [OF read(2)] read_data_InlD [OF read(3)] show ?thesis
      by (auto simp: read(4))
  next
    case (enc cb ck s t1 d t2 e t3)
    from conf_shape [OF enc(2)] read_shape [OF enc(3)] encrypt_data_InlD [OF enc(4)]
    show ?thesis
      by (auto simp: enc(5))
  next
    case (upload cb ck s t1 d t2 c t3 e t4)
    from conf_shape [OF upload(2)] read_shape [OF upload(3)] encrypt_shape [OF upload(4)]
      upload_encrypted_data_InlD [OF upload(5)]
    show ?thesis
      by (auto simp: upload(6) upload(1))
  next
    case (success cb ck s t1 d t2 c t3 t4)
    from conf_shape [OF success(2)] read_shape [OF success(3)] encrypt_shape [OF success(4)]
      upload_shape [OF success(5)]
    show ?thesis
      by (auto simp: success(6) success(1))
  qed
  have kept: "if status (fst (encrypt env arg)) = 200
    then persisted env [] (snd (encrypt env arg)) = filter is_upload (snd (encrypt env arg)) \<and>
         length (filter is_upload (snd (encrypt env arg))) = 1
    else persisted env [] (snd (encrypt env arg)) = []"
  proof (cases rule: encrypt_cases [of arg env])
    case (parse e)
    then show ?thesis by simp
  next
    case (conf cb ck e t1)
    from fetch_conf_and_secrets_InlD [OF conf(2)] show ?thesis
      by (auto simp: conf(3) persisted_no_upload)
  next
    case (read cb ck s t1 e t2)
    from conf_shape [OF read(2)] read_data_InlD [OF read(3)] show ?thesis
      by (auto simp: read(4))
  next
    case (enc cb ck s t1 d t2 e t3)
    from conf_shape [OF enc(2)] read_shape [OF enc(3)] encrypt_data_InlD [OF enc(4)]
    show ?thesis
      by (auto simp: enc(5))
  next
    case (upload cb ck s t1 d t2 c t3 e t4)
    from conf_shape [OF upload(2)] read_shape [OF upload(3)] encrypt_shape [OF upload(4)]
      upload_encrypted_data_InlD [OF upload(5)]
    show ?thesis
      by (auto simp: upload(6))
  next
    case (success cb ck s t1 d t2 c t3 t4)
    from conf_shape [OF success(2)] read_shape [OF success(3)] encrypt_shape [OF success(4)]
      upload_shape [OF success(5)]
    show ?thesis
      by (auto simp: success(6))
  qed
  from encrypt_trace_facts [of env arg]
  have once: "length (filter is_upload (snd (encrypt env arg))) \<le> 1"
    by (blast intro: filter_butlast_once)
  from encrypt_trace_facts [of env arg] once shape attempted kept show ?thesis
    by blast
qed

theorem encrypt_write_once_witness:
  "(\<exists>ev \<in> set (snd (encrypt scenario_env scenario_path)). is_upload ev) \<and>
   filter is_upload (snd (encrypt scenario_env scenario_path)) =
     [UploadFromString ''data-bucket'' (PStr ''out/report.csv.asc'') ''PGP MESSAGE''] \<and>
   status (fst (encrypt scenario_env scenario_path)) = 200 \<and>
   persisted scenario_env [] (snd (encrypt scenario_env scenario_path)) =
     [UploadFromString ''data-bucket'' (PStr ''out/report.csv.asc'') ''PGP MESSAGE''] \<and>
   status (fst (encrypt absent_env scenario_path)) \<noteq> 200 \<and>
   persisted absent_env [] (snd (encrypt absent_env scenario_path)) = []"
  using encrypt_write_once [of scenario_env scenario_path]
    encrypt_write_once [of absent_env scenario_path]
  by (simp add: encrypt_scenario encrypt_absent_env conf_trace_def)

subsection \<open>The secrets\<close>

text \<open>
  C8. In every run that ends with status 200, the secret manager is called exactly three
  times: for the configuration's \<^verbatim>\<open>gpg_public_key\<close>, then for its \<^verbatim>\<open>gcs_bucket\<close>, then for its
  \<^verbatim>\<open>recipient_name\<close>, each with \<^verbatim>\<open>/versions/latest\<close> appended. In every invocation there are
  at most three such calls, and every call before the last call of the run succeeded: a
  resolution that fails ends the run and is not tried again.
\<close>

theorem encrypt_secret_calls:
  "(status (fst (encrypt env arg)) = 200 \<longrightarrow>
      (\<exists>cb ck doc kvs id1 id2 id3.
         parse_conf_path arg = Inr (cb, ck) \<and>
         download_as_text env [] cb (PStr ck) = Inr doc \<and>
         json_loads env doc = Inr (PDict kvs) \<and>
         map_of kvs ''gpg_public_key'' = Some id1 \<and>
         map_of kvs ''gcs_bucket'' = Some id2 \<and>
         map_of kvs ''recipient_name'' = Some id3 \<and>
         filter is_secret (snd (encrypt env arg)) =
           [AccessSecretVersion (py_format env id1 @ ''/versions/latest''),
            AccessSecretVersion (py_format env id2 @ ''/versions/latest''),
            AccessSecretVersion (py_format env id3 @ ''/versions/latest'')])) \<and>
   length (filter is_secret (snd (encrypt env arg))) \<le> 3 \<and>
   all_succeeded env [] (butlast (snd (encrypt env arg)))"
proof -
  have "\<exists>cb ck doc kvs id1 id2 id3.
         parse_conf_path arg = Inr (cb, ck) \<and>
         download_as_text env [] cb (PStr ck) = Inr doc \<and>
         json_loads env doc = Inr (PDict kvs) \<and>
         map_of kvs ''gpg_public_key'' = Some id1 \<and>
         map_of kvs ''gcs_bucket'' = Some id2 \<and>
         map_of kvs ''recipient_name'' = Some id3 \<and>
         filter is_secret (snd (encrypt env arg)) =
           [AccessSecretVersion (py_format env id1 @ ''/versions/latest''),
            AccessSecretVersion (py_format env id2 @ ''/versions/latest''),
            AccessSecretVersion (py_format env id3 @ ''/versions/latest'')]"
    if ok: "status (fst (encrypt env arg)) = 200"
  proof -
    from encrypt_status_200D [OF ok] obtain cb ck s t1 d t2 c t3 t4 where
      parse: "parse_conf_path arg = Inr (cb, ck)" and
      conf: "fetch_conf_and_secrets env cb ck [] = (Inr s, t1)" and
      rd: "read_data env (gcs_bucket s) (file_path s) (file_name s) t1 = (Inr d, t2)" and
      enc: "encrypt_data env d (gpg_public_key s) (recipient_name s) t2 = (Inr c, t3)" and
      up: "upload_encrypted_data env (gcs_bucket s) c (encrypted_file_path s) (file_name s) t3
             = (Inr (), t4)" and
      res: "snd (encrypt env arg) = t4"
      by fastforce
    from fetch_conf_and_secrets_InrD [OF conf] obtain doc kvs id1 id2 id3 where
      dl: "download_as_text env [] cb (PStr ck) = Inr doc" and
      js: "json_loads env doc = Inr (PDict kvs)" and
      k1: "map_of kvs ''gpg_public_key'' = Some id1" and
      k2: "map_of kvs ''gcs_bucket'' = Some id2" and
      k3: "map_of kvs ''recipient_name'' = Some id3" and
      t1: "t1 = [DownloadAsText cb (PStr ck),
                 AccessSecretVersion (py_format env id1 @ ''/versions/latest''),
                 AccessSecretVersion (py_format env id2 @ ''/versions/latest''),
                 AccessSecretVersion (py_format env id3 @ ''/versions/latest'')]"
      by auto
    from read_shape [OF rd] encrypt_shape [OF enc] upload_shape [OF up]
    have "filter is_secret t4 = filter is_secret t1"
      by auto
    with parse dl js k1 k2 k3 t1 res show ?thesis
      by auto
  qed
  with encrypt_trace_facts [of env arg] show ?thesis
    by blast
qed

theorem encrypt_secret_calls_witness:
  "status (fst (encrypt scenario_env scenario_path)) = 200 \<and>
   filter is_secret (snd (encrypt scenario_env scenario_path)) =
     [AccessSecretVersion ''secrets/key/versions/latest'',
      AccessSecretVersion ''secrets/bucket/versions/latest'',
      AccessSecretVersion ''secrets/recipient/versions/latest'']"
  using encrypt_secret_calls [of scenario_env scenario_path]
  by (simp add: encrypt_scenario)

subsection \<open>The configuration\<close>

text \<open>
  C6, as amended. For a configuration object that \<^verbatim>\<open>json.loads\<close> reads as a \<^verbatim>\<open>dict\<close>: when one
  of the six fields is missing, loading fails and the response has status 500 and the body
  \<^verbatim>\<open>{"error": "Failed to fetch configuration or secrets: ..."}\<close>; when the six fields are
  present and the three secrets resolve, loading succeeds, and \<^verbatim>\<open>file_name\<close>, \<^verbatim>\<open>file_path\<close>
  and \<^verbatim>\<open>encrypted_file_path\<close> reach the pipeline unchanged, whatever their values, null
  included. Loading does not reject a null field.
\<close>

theorem load_required_fields:
  assumes "parse_conf_path arg = Inr (cb, ck)"
    and "bucket env cb = Inr ()"
    and "download_as_text env [] cb (PStr ck) = Inr doc"
    and "json_loads env doc = Inr (PDict kvs)"
  shows "((\<exists>k \<in> set required_fields. map_of kvs k = None) \<longrightarrow>
            isl (fst (fetch_conf_and_secrets env cb ck [])) \<and>
            status (fst (encrypt env arg)) = 500 \<and>
            (\<exists>e. body (fst (encrypt env arg)) =
                   Error ''Failed to fetch configuration or secrets: '' e)) \<and>
         (\<forall>id1 id2 id3 fname fpath epath key bkt rcp.
            map_of kvs ''gpg_public_key'' = Some id1 \<and>
            map_of kvs ''gcs_bucket'' = Some id2 \<and>
            map_of kvs ''recipient_name'' = Some id3 \<and>
            map_of kvs ''file_name'' = Some fname \<and>
            map_of kvs ''file_path'' = Some fpath \<and>
            map_of kvs ''encrypted_file_path'' = Some epath \<and>
            access_secret_version env [DownloadAsText cb (PStr ck)]
              (py_format env id1 @ ''/versions/latest'') = Inr key \<and>
            access_secret_version env
              [DownloadAsText cb (PStr ck),
               AccessSecretVersion (py_format env id1 @ ''/versions/latest'')]
              (py_format env id2 @ ''/versions/latest'') = Inr bkt \<and>
            access_secret_version env
              [DownloadAsText cb (PStr ck),
               AccessSecretVersion (py_format env id1 @ ''/versions/latest''),
               AccessSecretVersion (py_format env id2 @ ''/versions/latest'')]
              (py_format env id3 @ ''/versions/latest'') = Inr rcp \<longrightarrow>
            fetch_conf_and_secrets env cb ck [] =
              (Inr \<lparr>gpg_public_key = key, gcs_bucket = bkt, recipient_name = rcp,
                    file_name = fname, file_path = fpath, encrypted_file_path = epath\<rparr>,
               [DownloadAsText cb (PStr ck),
                AccessSecretVersion (py_format env id1 @ ''/versions/latest''),
                AccessSecretVersion (py_format env id2 @ ''/versions/latest''),
                AccessSecretVersion (py_format env id3 @ ''/versions/latest'')]))"
proof (intro conjI allI impI)
  assume missing: "\<exists>k \<in> set required_fields. map_of kvs k = None"
  obtain r t1 where run: "fetch_conf_and_secrets env cb ck [] = (r, t1)"
    by (cases "fetch_conf_and_secrets env cb ck []")
  have "\<exists>e. r = Inl e"
  proof (cases r)
    case (Inl e)
    then show ?thesis by simp
  next
    case (Inr s)
    from fetch_conf_and_secrets_InrD [OF run [unfolded Inr]] assms(3,4)
    have "\<forall>k \<in> set required_fields. map_of kvs k \<noteq> None"
      by (auto simp: required_fields_def)
    with missing show ?thesis by blast
  qed
  then obtain e where e: "r = Inl e" ..
  with run assms(1) have res: "encrypt env arg =
      (\<lparr>body = Error ''Failed to fetch configuration or secrets: '' e, status = 500\<rparr>, t1)"
    by (simp add: encrypt_def)
  from run e show "isl (fst (fetch_conf_and_secrets env cb ck []))"
    by simp
  from res show "status (fst (encrypt env arg)) = 500"
    and "\<exists>e. body (fst (encrypt env arg)) =
               Error ''Failed to fetch configuration or secrets: '' e"
    by simp_all
next
  fix id1 id2 id3 fname fpath epath key bkt rcp
  assume "map_of kvs ''gpg_public_key'' = Some id1 \<and>
            map_of kvs ''gcs_bucket'' = Some id2 \<and>
            map_of kvs ''recipient_name'' = Some id3 \<and>
            map_of kvs ''file_name'' = Some fname \<and>
            map_of kvs ''file_path'' = Some fpath \<and>
            map_of kvs ''encrypted_file_path'' = Some epath \<and>
            access_secret_version env [DownloadAsText cb (PStr ck)]
              (py_format env id1 @ ''/versions/latest'') = Inr key \<and>
            access_secret_version env
              [DownloadAsText cb (PStr ck),
               AccessSecretVersion (py_format env id1 @ ''/versions/latest'')]
              (py_format env id2 @ ''/versions/latest'') = Inr bkt \<and>
            access_secret_version env
              [DownloadAsText cb (PStr ck),
               AccessSecretVersion (py_format env id1 @ ''/versions/latest''),
               AccessSecretVersion (py_format env id2 @ ''/versions/latest'')]
              (py_format env id3 @ ''/versions/latest'') = Inr rcp"
  with assms(2-4) show "fetch_conf_and_secrets env cb ck [] =
              (Inr \<lparr>gpg_public_key = key, gcs_bucket = bkt, recipient_name = rcp,
                    file_name = fname, file_path = fpath, encrypted_file_path = epath\<rparr>,
               [DownloadAsText cb (PStr ck),
                AccessSecretVersion (py_format env id1 @ ''/versions/latest''),
                AccessSecretVersion (py_format env id2 @ ''/versions/latest''),
                AccessSecretVersion (py_format env id3 @ ''/versions/latest'')])"
    by (simp add: fetch_conf_and_secrets_def fetch_conf_details_def fetch_secret_def)
qed

theorem load_required_fields_witness:
  "parse_conf_path scenario_path = Inr (''cfgbucket'', ''app/conf.json'') \<and>
   bucket short_env ''cfgbucket'' = Inr () \<and>
   download_as_text short_env [] ''cfgbucket'' (PStr ''app/conf.json'') = Inr ''CONF'' \<and>
   json_loads short_env ''CONF'' = Inr conf_short \<and>
   ''encrypted_file_path'' \<in> set required_fields \<and>
   isl (fst (fetch_conf_and_secrets short_env ''cfgbucket'' ''app/conf.json'' [])) \<and>
   status (fst (encrypt short_env scenario_path)) = 500 \<and>
   bucket scenario_env ''cfgbucket'' = Inr () \<and>
   download_as_text scenario_env [] ''cfgbucket'' (PStr ''app/conf.json'') = Inr ''CONF'' \<and>
   json_loads scenario_env ''CONF'' = Inr conf_ok \<and>
   fetch_conf_and_secrets scenario_env ''cfgbucket'' ''app/conf.json'' [] =
     (Inr scenario_settings, conf_trace)"
proof -
  have short: "bucket short_env ''cfgbucket'' = Inr ()"
    "download_as_text short_env [] ''cfgbucket'' (PStr ''app/conf.json'') = Inr ''CONF''"
    "json_loads short_env ''CONF'' = Inr (PDict
       [(''gpg_public_key'', PStr ''secrets/key''),
        (''gcs_bucket'', PStr ''secrets/bucket''),
        (''recipient_name'', PStr ''secrets/recipient''),
        (''file_name'', PStr ''report.csv''),
        (''file_path'', PStr ''in/'')])"
    by (simp_all add: short_env_def test_env_conf conf_short_def)
  have full: "bucket scenario_env ''cfgbucket'' = Inr ()"
    "download_as_text scenario_env [] ''cfgbucket'' (PStr ''app/conf.json'') = Inr ''CONF''"
    "json_loads scenario_env ''CONF'' = Inr (PDict
       [(''gpg_public_key'', PStr ''secrets/key''),
        (''gcs_bucket'', PStr ''secrets/bucket''),
        (''recipient_name'', PStr ''secrets/recipient''),
        (''file_name'', PStr ''report.csv''),
        (''file_path'', PStr ''in/''),
        (''encrypted_file_path'', PStr ''out/'')])"
    by (simp_all add: scenario_env_def test_env_conf conf_ok_def)
  have secrets:
    "access_secret_version scenario_env t ''secrets/key/versions/latest'' = Inr ''PUBLIC KEY''"
    "access_secret_version scenario_env t ''secrets/bucket/versions/latest'' = Inr ''data-bucket''"
    "access_secret_version scenario_env t ''secrets/recipient/versions/latest'' = Inr ''alice''"
    for t
    by (simp_all add: scenario_env_def test_env_def)
  from load_required_fields [OF parse_scenario_path short]
    load_required_fields [OF parse_scenario_path full]
  show ?thesis
    by (simp add: parse_scenario_path short full secrets required_fields_def conf_short_def
        conf_ok_def scenario_settings_def conf_trace_def)
qed

text \<open>
  The claim as stated fails for a null field: with \<^verbatim>\<open>encrypted_file_path\<close> null, loading
  succeeds, the source is read and encrypted, and the run fails only at the upload, with
  the body \<^verbatim>\<open>{"error": "Failed to store encrypted file: ..."}\<close>.
\<close>

theorem null_field_loaded:
  "fetch_conf_and_secrets null_env ''cfgbucket'' ''app/conf.json'' [] =
     (Inr \<lparr>gpg_public_key = ''PUBLIC KEY'', gcs_bucket = ''data-bucket'',
           recipient_name = ''alice'', file_name = PStr ''report.csv'',
           file_path = PStr ''in/'', encrypted_file_path = PNone\<rparr>, conf_trace) \<and>
   encrypt null_env scenario_path =
     (\<lparr>body = Error ''Failed to store encrypted file: '' TypeError, status = 500\<rparr>,
      conf_trace @ [DownloadAsText ''data-bucket'' (PStr ''in/report.csv''),
        ImportKeys ''PUBLIC KEY'', GpgEncrypt ''a,b,c'' ''alice''])"
  by (simp add: encrypt_null_env) (simp add: null_env_def fetch_conf_null_env)

subsection \<open>The read and the encryption\<close>

text \<open>
  C7. When the configuration is loaded, \<^verbatim>\<open>file_path\<close> and \<^verbatim>\<open>file_name\<close> are strings and the
  read of \<^verbatim>\<open>file_path + file_name\<close> raises (the object is absent), the response has status
  500 and the body \<^verbatim>\<open>{"error": "Encryption failed: ..."}\<close> carrying the text of the
  exception the storage client raised; the run ends with that read, no upload is attempted
  and nothing is persisted.
\<close>

theorem encrypt_source_absent:
  assumes "parse_conf_path arg = Inr (cb, ck)"
    and "fetch_conf_and_secrets env cb ck [] = (Inr s, t1)"
    and "file_path s = PStr fp" and "file_name s = PStr fn"
    and "bucket env (gcs_bucket s) = Inr ()"
    and "download_as_text env t1 (gcs_bucket s) (PStr (fp @ fn)) = Inl e"
  shows "encrypt env arg =
           (\<lparr>body = Error ''Encryption failed: '' e, status = 500\<rparr>,
            t1 @ [DownloadAsText (gcs_bucket s) (PStr (fp @ fn))]) \<and>
         filter is_upload (snd (encrypt env arg)) = [] \<and>
         persisted env [] (snd (encrypt env arg)) = []"
proof -
  have rd: "read_data env (gcs_bucket s) (file_path s) (file_name s) t1 =
              (Inl e, t1 @ [DownloadAsText (gcs_bucket s) (PStr (fp @ fn))])"
    using assms(3-6) by (simp add: read_data_def)
  have res: "encrypt env arg =
           (\<lparr>body = Error ''Encryption failed: '' e, status = 500\<rparr>,
            t1 @ [DownloadAsText (gcs_bucket s) (PStr (fp @ fn))])"
    using assms(1,2) rd by (simp add: encrypt_def read_and_encrypt_data_def)
  from conf_shape [OF assms(2)] have no: "filter is_upload (snd (encrypt env arg)) = []"
    by (auto simp: res)
  from res no persisted_no_upload [OF no] show ?thesis
    by simp
qed

theorem encrypt_source_absent_witness:
  "parse_conf_path scenario_path = Inr (''cfgbucket'', ''app/conf.json'') \<and>
   fetch_conf_and_secrets absent_env ''cfgbucket'' ''app/conf.json'' [] =
     (Inr scenario_settings, conf_trace) \<and>
   download_as_text absent_env conf_trace ''data-bucket'' (PStr (''in/'' @ ''report.csv'')) =
     Inl (BackendError ''404 No such object'') \<and>
   encrypt absent_env scenario_path =
     (\<lparr>body = Error ''Encryption failed: '' (BackendError ''404 No such object''),
       status = 500\<rparr>,
      conf_trace @ [DownloadAsText ''data-bucket'' (PStr (''in/'' @ ''report.csv''))]) \<and>
   filter is_upload (snd (encrypt absent_env scenario_path)) = [] \<and>
   persisted absent_env [] (snd (encrypt absent_env scenario_path)) = []"
proof -
  have conf: "fetch_conf_and_secrets absent_env ''cfgbucket'' ''app/conf.json'' [] =
                (Inr scenario_settings, conf_trace)"
    unfolding absent_env_def by (rule fetch_conf_test_env)
  have fp: "file_path scenario_settings = PStr ''in/''"
    and fn: "file_name scenario_settings = PStr ''report.csv''"
    by (simp_all add: scenario_settings_def)
  have bk: "bucket absent_env (gcs_bucket scenario_settings) = Inr ()"
    by (simp add: absent_env_def test_env_def)
  have dl: "download_as_text absent_env conf_trace (gcs_bucket scenario_settings)
              (PStr (''in/'' @ ''report.csv'')) = Inl (BackendError ''404 No such object'')"
    by (simp add: absent_env_def test_env_def scenario_settings_def)
  have gb: "gcs_bucket scenario_settings = ''data-bucket''"
    by (simp add: scenario_settings_def)
  from encrypt_source_absent [OF parse_scenario_path conf fp fn bk dl] parse_scenario_path
    conf dl
  show ?thesis
    unfolding gb by blast
qed

text \<open>
  C5, as amended. Once the source is read, the import and encryption (lines 58 to 67) fail
  exactly when \<^verbatim>\<open>import_keys\<close> raises, \<^verbatim>\<open>gpg.encrypt\<close> raises, or the result of \<^verbatim>\<open>gpg.encrypt\<close>
  has its flag \<^verbatim>\<open>ok\<close> false. In the last case the exception is a \<^verbatim>\<open>ValueError\<close> whose text
  is \<^verbatim>\<open>Encryption failed: \<close> followed by the engine's \<^verbatim>\<open>stderr\<close>, and the response carries
  it. In every failing case the response has status 500 and the body
  \<^verbatim>\<open>{"error": "Encryption failed: ..."}\<close>, and no upload is attempted. What \<^verbatim>\<open>import_keys\<close>
  reports in its result is not looked at.
\<close>

theorem encrypt_stage_fails_iff:
  assumes "parse_conf_path arg = Inr (cb, ck)"
    and "fetch_conf_and_secrets env cb ck [] = (Inr s, t1)"
    and "read_data env (gcs_bucket s) (file_path s) (file_name s) t1 = (Inr d, t2)"
  shows "(isl (fst (encrypt_data env d (gpg_public_key s) (recipient_name s) t2)) \<longleftrightarrow>
            isl (import_keys env t2 (gpg_public_key s)) \<or>
            isl (gpg_encrypt env (t2 @ [ImportKeys (gpg_public_key s)]) d (recipient_name s)) \<or>
            (\<exists>c. gpg_encrypt env (t2 @ [ImportKeys (gpg_public_key s)]) d (recipient_name s)
                   = Inr c \<and> \<not> ok c)) \<and>
         (\<forall>ir c.
            import_keys env t2 (gpg_public_key s) = Inr ir \<and>
            gpg_encrypt env (t2 @ [ImportKeys (gpg_public_key s)]) d (recipient_name s) = Inr c \<and>
            \<not> ok c \<longrightarrow>
            encrypt env arg =
              (\<lparr>body = Error ''Encryption failed: ''
                         (ValueError (''Encryption failed: '' @ stderr c)),
                status = 500\<rparr>,
               t2 @ [ImportKeys (gpg_public_key s), GpgEncrypt d (recipient_name s)])) \<and>
         (isl (fst (encrypt_data env d (gpg_public_key s) (recipient_name s) t2)) \<longrightarrow>
            status (fst (encrypt env arg)) = 500 \<and>
            (\<exists>e. body (fst (encrypt env arg)) = Error ''Encryption failed: '' e) \<and>
            filter is_upload (snd (encrypt env arg)) = [])"
proof (intro conjI allI impI)
  show "isl (fst (encrypt_data env d (gpg_public_key s) (recipient_name s) t2)) \<longleftrightarrow>
            isl (import_keys env t2 (gpg_public_key s)) \<or>
            isl (gpg_encrypt env (t2 @ [ImportKeys (gpg_public_key s)]) d (recipient_name s)) \<or>
            (\<exists>c. gpg_encrypt env (t2 @ [ImportKeys (gpg_public_key s)]) d (recipient_name s)
                   = Inr c \<and> \<not> ok c)"
    by (auto simp: encrypt_data_def Let_def split: sum.splits)
next
  fix ir c
  assume "import_keys env t2 (gpg_public_key s) = Inr ir \<and>
          gpg_encrypt env (t2 @ [ImportKeys (gpg_public_key s)]) d (recipient_name s) = Inr c \<and>
          \<not> ok c"
  then have "encrypt_data env d (gpg_public_key s) (recipient_name s) t2 =
               (Inl (ValueError (''Encryption failed: '' @ stderr c)),
                t2 @ [ImportKeys (gpg_public_key s), GpgEncrypt d (recipient_name s)])"
    by (simp add: encrypt_data_def)
  with assms show "encrypt env arg =
              (\<lparr>body = Error ''Encryption failed: ''
                         (ValueError (''Encryption failed: '' @ stderr c)),
                status = 500\<rparr>,
               t2 @ [ImportKeys (gpg_public_key s), GpgEncrypt d (recipient_name s)])"
    by (simp add: encrypt_def read_and_encrypt_data_def)
next
  assume fails: "isl (fst (encrypt_data env d (gpg_public_key s) (recipient_name s) t2))"
  then obtain e t3 where
    enc: "encrypt_data env d (gpg_public_key s) (recipient_name s) t2 = (Inl e, t3)"
    by (cases "encrypt_data env d (gpg_public_key s) (recipient_name s) t2")
      (auto simp: isl_def)
  with assms have res:
    "encrypt env arg = (\<lparr>body = Error ''Encryption failed: '' e, status = 500\<rparr>, t3)"
    by (simp add: encrypt_def read_and_encrypt_data_def)
  from conf_shape [OF assms(2)] read_shape [OF assms(3)] encrypt_data_InlD [OF enc]
  have "filter is_upload t3 = []"
    by auto
  with res show "status (fst (encrypt env arg)) = 500"
    and "\<exists>e. body (fst (encrypt env arg)) = Error ''Encryption failed: '' e"
    and "filter is_upload (snd (encrypt env arg)) = []"
    by simp_all
qed

theorem encrypt_stage_fails_iff_witness:
  "parse_conf_path scenario_path = Inr (''cfgbucket'', ''app/conf.json'') \<and>
   fetch_conf_and_secrets nokey_env ''cfgbucket'' ''app/conf.json'' [] =
     (Inr scenario_settings, conf_trace) \<and>
   read_data nokey_env ''data-bucket'' (PStr ''in/'') (PStr ''report.csv'') conf_trace =
     (Inr ''a,b,c'', conf_trace @ [DownloadAsText ''data-bucket'' (PStr ''in/report.csv'')]) \<and>
   gpg_encrypt nokey_env
     (conf_trace @ [DownloadAsText ''data-bucket'' (PStr ''in/report.csv''),
        ImportKeys ''PUBLIC KEY''])
     ''a,b,c'' ''alice'' = Inr bad_crypt \<and>
   \<not> ok bad_crypt \<and>
   isl (fst (encrypt_data nokey_env ''a,b,c'' ''PUBLIC KEY'' ''alice''
     (conf_trace @ [DownloadAsText ''data-bucket'' (PStr ''in/report.csv'')]))) \<and>
   encrypt nokey_env scenario_path =
     (\<lparr>body = Error ''Encryption failed: ''
         (ValueError (''Encryption failed: '' @ stderr bad_crypt)),
       status = 500\<rparr>,
      conf_trace @ [DownloadAsText ''data-bucket'' (PStr ''in/report.csv''),
        ImportKeys ''PUBLIC KEY'', GpgEncrypt ''a,b,c'' ''alice'']) \<and>
   filter is_upload (snd (encrypt nokey_env scenario_path)) = []"
proof -
  have conf: "fetch_conf_and_secrets nokey_env ''cfgbucket'' ''app/conf.json'' [] =
                (Inr scenario_settings, conf_trace)"
    unfolding nokey_env_def by (rule fetch_conf_test_env)
  have rd: "read_data nokey_env (gcs_bucket scenario_settings) (file_path scenario_settings)
              (file_name scenario_settings) conf_trace =
              (Inr ''a,b,c'',
               conf_trace @ [DownloadAsText ''data-bucket'' (PStr ''in/report.csv'')])"
    by (simp add: scenario_settings_def nokey_env_def read_data_test_env)
  have imp: "import_keys nokey_env
               (conf_trace @ [DownloadAsText ''data-bucket'' (PStr ''in/report.csv'')])
               ''PUBLIC KEY'' = Inr \<lparr>count = 0\<rparr>"
    by (simp add: nokey_env_def test_env_def)
  have gpg: "gpg_encrypt nokey_env
     (conf_trace @ [DownloadAsText ''data-bucket'' (PStr ''in/report.csv''),
        ImportKeys ''PUBLIC KEY''])
     ''a,b,c'' ''alice'' = Inr bad_crypt"
    by (simp add: nokey_env_def test_env_def)
  have bad: "\<not> ok bad_crypt"
    by (simp add: bad_crypt_def)
  from encrypt_stage_fails_iff [OF parse_scenario_path conf rd] imp gpg bad
    parse_scenario_path conf rd
  show ?thesis
    by (simp add: scenario_settings_def conf_trace_def)
qed

text \<open>
  The claim as stated fails when the key material is not imported (\<^verbatim>\<open>import_keys\<close> reports
  no imported key) and the engine still encrypts for the recipient: the stage succeeds and
  the upload is made.
\<close>

theorem import_result_not_checked:
  "import_keys stale_env
     (conf_trace @ [DownloadAsText ''data-bucket'' (PStr ''in/report.csv'')])
     ''PUBLIC KEY'' = Inr \<lparr>count = 0\<rparr> \<and>
   encrypt stale_env scenario_path =
     (\<lparr>body = Message ''Success, file was encrypted and stored in GCS.'', status = 200\<rparr>,
      conf_trace @ [DownloadAsText ''data-bucket'' (PStr ''in/report.csv''),
        ImportKeys ''PUBLIC KEY'', GpgEncrypt ''a,b,c'' ''alice'',
        UploadFromString ''data-bucket'' (PStr ''out/report.csv.asc'') ''PGP MESSAGE''])"
  by (simp add: encrypt_stale_env) (simp add: stale_env_def test_env_def)

end
